theory Spec2Isabelle
  imports Main
begin

section \<open>Values, dictionaries and failures\<close>

text \<open>
  The module \<open>cloudify/context.py\<close> works on plain Python dictionaries. A dictionary
  that is only indexed, tested for membership and assigned to is a map from keys to
  values. The \<open>capabilities\<close> dictionary is also iterated (\<open>.values()\<close>), so it is
  the list of its items in iteration order; the node ids of a Python dictionary are
  pairwise distinct, and no result below depends on the order.

  A Python value is either \<open>None\<close> or something else; the payload of \<open>PyVal\<close> is
  left open.
\<close>

datatype 'a pyval = PyNone | PyVal 'a

type_synonym 'a dict = "string \<rightharpoonup> 'a pyval"

type_synonym 'a capabilities_dict = "(string \<times> 'a dict) list"

text \<open>
  The exceptions the module raises, under the names of the error taxonomy:
  \<^item> \<open>CapabilityAmbiguous key capabilities\<close> is
    \<^verbatim>\<open>RuntimeError("'{0}' capability ambiguity [capabilities={1}]".format(key, self._capabilities))\<close>;
  \<^item> \<open>CapabilityNotFound key capabilities\<close> is
    \<^verbatim>\<open>KeyError("capability '{0}' not found [capabilities={1}]".format(key, self._capabilities))\<close>;
  \<^item> \<open>KeyNotFound key\<close> is the \<^verbatim>\<open>KeyError(key)\<close> of indexing a dictionary at a missing key;
  \<^item> \<open>NoNodeInContext message\<close> is the \<^verbatim>\<open>RuntimeError(message)\<close> raised when
    \<^verbatim>\<open>self.node_id is None\<close>;
  \<^item> \<open>AttributeError\<close> and \<open>TypeError\<close> are what Python raises when an attribute
    is read from \<open>None\<close> or \<open>None\<close> is indexed.
\<close>

datatype 'a error =
    CapabilityAmbiguous string "'a capabilities_dict"
  | CapabilityNotFound string "'a capabilities_dict"
  | KeyNotFound string
  | NoNodeInContext string
  | AttributeError string
  | TypeError string

text \<open>\<^verbatim>\<open>d[key]\<close> on a dictionary.\<close>

definition dict_getitem :: "'a dict \<Rightarrow> string \<Rightarrow> 'a error + 'a pyval" where
  "dict_getitem d key = (case d key of None \<Rightarrow> Inl (KeyNotFound key) | Some v \<Rightarrow> Inr v)"

text \<open>\<^verbatim>\<open>key in d\<close> on a dictionary.\<close>

definition dict_contains :: "'a dict \<Rightarrow> string \<Rightarrow> bool" where
  "dict_contains d key = (case d key of None \<Rightarrow> False | Some _ \<Rightarrow> True)"


section \<open>ContextCapabilities\<close>

datatype 'a context_capabilities = ContextCapabilities (get_all: "'a capabilities_dict")

text \<open>\<^verbatim>\<open>ContextCapabilities.__init__(self, capabilities=None)\<close>\<close>

definition ContextCapabilities_init ::
  "'a capabilities_dict option \<Rightarrow> 'a context_capabilities" where
  "ContextCapabilities_init capabilities =
     (case capabilities of
        None \<Rightarrow> ContextCapabilities []
      | Some c \<Rightarrow> ContextCapabilities c)"

text \<open>
  The loop of \<open>_find_item\<close> over \<^verbatim>\<open>self._capabilities.values()\<close>, with the loop
  variables \<open>found\<close> and \<open>value\<close> as accumulators; \<open>all_caps\<close> is
  \<^verbatim>\<open>self._capabilities\<close>, which the error message prints.
\<close>

fun find_item_loop ::
  "string \<Rightarrow> 'a capabilities_dict \<Rightarrow> 'a dict list \<Rightarrow> bool \<Rightarrow> 'a pyval
     \<Rightarrow> 'a error + (bool \<times> 'a pyval)" where
  "find_item_loop key all_caps [] found val = Inr (found, val)"
| "find_item_loop key all_caps (caps # rest) found val =
     (case caps key of
        Some v \<Rightarrow>
          (if found then Inl (CapabilityAmbiguous key all_caps)
           else find_item_loop key all_caps rest True v)
      | None \<Rightarrow> find_item_loop key all_caps rest found val)"

definition find_item ::
  "'a context_capabilities \<Rightarrow> string \<Rightarrow> 'a error + (bool \<times> 'a pyval)" where
  "find_item self key =
     find_item_loop key (get_all self) (map snd (get_all self)) False PyNone"

text \<open>\<^verbatim>\<open>ContextCapabilities.__getitem__\<close>\<close>

definition capabilities_getitem ::
  "'a context_capabilities \<Rightarrow> string \<Rightarrow> 'a error + 'a pyval" where
  "capabilities_getitem self key =
     (case find_item self key of
        Inl e \<Rightarrow> Inl e
      | Inr (found, val) \<Rightarrow>
          (if \<not> found then Inl (CapabilityNotFound key (get_all self)) else Inr val))"

text \<open>\<^verbatim>\<open>ContextCapabilities.__contains__\<close>\<close>

definition capabilities_contains ::
  "'a context_capabilities \<Rightarrow> string \<Rightarrow> 'a error + bool" where
  "capabilities_contains self key =
     (case find_item self key of
        Inl e \<Rightarrow> Inl e
      | Inr (found, _) \<Rightarrow> Inr found)"

text \<open>
  The number of dependency runtime-properties maps in which a key appears.
\<close>

definition occurrences :: "string \<Rightarrow> 'a dict list \<Rightarrow> nat" where
  "occurrences key ds = length (filter (\<lambda>caps. dict_contains caps key) ds)"


section \<open>The invocation payload\<close>

text \<open>
  The payload is the dictionary \<^verbatim>\<open>ctx\<close> handed to the constructors. An entry read
  with \<^verbatim>\<open>.get(name)\<close> or tested with \<^verbatim>\<open>name in ctx\<close> is an optional field
  (\<open>None\<close> when the entry is missing). The \<open>related\<close> sub-record is indexed
  directly at \<open>node_id\<close> and \<open>node_properties\<close>, so it carries both.
\<close>

record 'a related_payload =
  rel_node_id :: string
  rel_node_properties :: "'a dict"

record 'a payload =
  payload_node_id :: "string option"
  payload_node_name :: "string option"
  payload_node_properties :: "'a dict option"
  payload_blueprint_id :: "string option"
  payload_deployment_id :: "string option"
  payload_execution_id :: "string option"
  payload_workflow_id :: "string option"
  payload_task_id :: "string option"
  payload_task_name :: "string option"
  payload_task_target :: "string option"
  payload_plugin :: "string option"
  payload_operation :: "string option"
  payload_capabilities :: "'a capabilities_dict option"
  payload_related :: "'a related_payload option"

text \<open>The empty dictionary \<^verbatim>\<open>{}\<close> as a payload.\<close>

definition empty_payload :: "'a payload" where
  "empty_payload =
     \<lparr>payload_node_id = None, payload_node_name = None, payload_node_properties = None,
      payload_blueprint_id = None, payload_deployment_id = None,
      payload_execution_id = None, payload_workflow_id = None, payload_task_id = None,
      payload_task_name = None, payload_task_target = None, payload_plugin = None,
      payload_operation = None, payload_capabilities = None, payload_related = None\<rparr>"


section \<open>CloudifyRelatedNode\<close>

record 'a cloudify_related_node =
  rn_related :: "'a related_payload"
  rn_runtime_properties :: "'a dict"

text \<open>
  \<^verbatim>\<open>CloudifyRelatedNode.__init__(self, ctx)\<close>. \<^verbatim>\<open>ctx['related']\<close> raises
  \<open>KeyError\<close> when the payload has no such entry; \<^verbatim>\<open>self.node_id\<close> is
  \<^verbatim>\<open>self._related['node_id']\<close>.
\<close>

definition CloudifyRelatedNode_init ::
  "'a payload \<Rightarrow> 'a error + 'a cloudify_related_node" where
  "CloudifyRelatedNode_init ctx =
     (case payload_related ctx of
        None \<Rightarrow> Inl (KeyNotFound ''related'')
      | Some related \<Rightarrow>
          (case payload_capabilities ctx of
             Some caps \<Rightarrow>
               (case map_of caps (rel_node_id related) of
                  Some d \<Rightarrow> Inr \<lparr>rn_related = related, rn_runtime_properties = d\<rparr>
                | None \<Rightarrow> Inr \<lparr>rn_related = related, rn_runtime_properties = Map.empty\<rparr>)
           | None \<Rightarrow> Inr \<lparr>rn_related = related, rn_runtime_properties = Map.empty\<rparr>))"

definition related_node_id :: "'a cloudify_related_node \<Rightarrow> string" where
  "related_node_id self = rel_node_id (rn_related self)"

definition related_properties :: "'a cloudify_related_node \<Rightarrow> 'a dict" where
  "related_properties self = rel_node_properties (rn_related self)"

definition related_runtime_properties :: "'a cloudify_related_node \<Rightarrow> 'a dict" where
  "related_runtime_properties self = rn_runtime_properties self"

text \<open>\<^verbatim>\<open>CloudifyRelatedNode.__getitem__\<close>\<close>

definition related_getitem ::
  "'a cloudify_related_node \<Rightarrow> string \<Rightarrow> 'a error + 'a pyval" where
  "related_getitem self key =
     (if dict_contains (related_properties self) key
      then dict_getitem (related_properties self) key
      else dict_getitem (rn_runtime_properties self) key)"

text \<open>\<^verbatim>\<open>CloudifyRelatedNode.__contains__\<close>\<close>

definition related_contains :: "'a cloudify_related_node \<Rightarrow> string \<Rightarrow> bool" where
  "related_contains self key =
     (dict_contains (related_properties self) key
      \<or> dict_contains (rn_runtime_properties self) key)"


section \<open>NodeState and the storage collaborator\<close>

text \<open>
  Modelled from the spec: the class \<open>NodeState\<close> and the functions \<open>get_node_state\<close>
  and \<open>update_node_state\<close> of the module \<open>manager\<close>, which \<open>context.py\<close> imports and
  which is not among the sources. A NodeState is the runtime-properties record of one
  node; it exposes the mapping as \<open>runtime_properties\<close> and behaves as a small key-value
  store under indexed get, indexed set and membership, an indexed get of an absent key
  failing with \<open>KeyNotFound\<close>.
\<close>

record 'a node_state =
  ns_id :: string
  ns_runtime_properties :: "'a dict"

text \<open>
  Modelled from the spec: indexed get on a NodeState (\<open>NodeState.__getitem__\<close> of
  module \<open>manager\<close>), failing with \<open>KeyNotFound\<close> on an absent key.
\<close>

definition node_state_getitem :: "'a node_state \<Rightarrow> string \<Rightarrow> 'a error + 'a pyval" where
  "node_state_getitem ns key = dict_getitem (ns_runtime_properties ns) key"

text \<open>
  Modelled from the spec: indexed set on a NodeState (\<open>NodeState.__setitem__\<close> of
  module \<open>manager\<close>); the value is recorded in the record, nothing is persisted.
\<close>

definition node_state_setitem :: "'a node_state \<Rightarrow> string \<Rightarrow> 'a pyval \<Rightarrow> 'a node_state" where
  "node_state_setitem ns key val =
     ns\<lparr>ns_runtime_properties := (ns_runtime_properties ns)(key \<mapsto> val)\<rparr>"

text \<open>
  Modelled from the spec: membership on a NodeState (\<open>NodeState.__contains__\<close> of
  module \<open>manager\<close>).
\<close>

definition node_state_contains :: "'a node_state \<Rightarrow> string \<Rightarrow> bool" where
  "node_state_contains ns key = dict_contains (ns_runtime_properties ns) key"

text \<open>
  The calls made to the storage collaborator are recorded in order. What
  \<open>get_node_state\<close> answers is a parameter of the model: any function of the calls
  made so far and of the node id asked for.
\<close>

datatype 'a call = Get_node_state string | Update_node_state "'a node_state"

type_synonym 'a storage = "'a call list \<Rightarrow> string \<Rightarrow> 'a node_state"


section \<open>Loggers\<close>

text \<open>
  The part of Python's \<open>logging\<close> module that \<open>_init_cloudify_logger\<close> uses. The module
  keeps one logger object per name; \<open>getLogger\<close> returns it and creates it first when
  the name is new (level \<open>NOTSET\<close>, no handlers, propagating). A logger holds its
  handlers in a list. \<open>removeHandler\<close> removes the handler from that list when it is
  there, \<open>addHandler\<close> appends it when it is not. A handler is an object with an
  identity and a formatter.
\<close>

record handler =
  handler_id :: nat
  formatter :: "string option"

record logger =
  level :: nat
  handlers :: "handler list"
  propagate :: bool

definition NOTSET :: nat where
  "NOTSET = 0"

definition INFO :: nat where
  "INFO = 20"

definition getLogger :: "(string \<rightharpoonup> logger) \<Rightarrow> string \<Rightarrow> logger" where
  "getLogger registry name =
     (case registry name of
        Some lg \<Rightarrow> lg
      | None \<Rightarrow> \<lparr>level = NOTSET, handlers = [], propagate = True\<rparr>)"

definition setLevel :: "logger \<Rightarrow> nat \<Rightarrow> logger" where
  "setLevel lg l = lg\<lparr>level := l\<rparr>"

definition removeHandler :: "handler list \<Rightarrow> handler \<Rightarrow> handler list" where
  "removeHandler hs h = (if h \<in> set hs then remove1 h hs else hs)"

definition addHandler :: "handler list \<Rightarrow> handler \<Rightarrow> handler list" where
  "addHandler hs h = (if h \<notin> set hs then hs @ [h] else hs)"

definition setFormatter :: "handler \<Rightarrow> string \<Rightarrow> handler" where
  "setFormatter h fmt = h\<lparr>formatter := Some fmt\<rparr>"


section \<open>The world outside the context\<close>

record 'a world =
  storage_calls :: "'a call list"
  loggers :: "string \<rightharpoonup> logger"

text \<open>
  Modelled from the spec: \<open>get_node_state(node_id)\<close> of module \<open>manager\<close>, which
  returns the persisted NodeState of a node. The call is recorded; the answer is the
  parameter \<open>storage\<close>.
\<close>

definition get_node_state ::
  "'a storage \<Rightarrow> string \<Rightarrow> 'a world \<Rightarrow> 'a node_state \<times> 'a world" where
  "get_node_state storage node_id w =
     (storage (storage_calls w) node_id,
      w\<lparr>storage_calls := storage_calls w @ [Get_node_state node_id]\<rparr>)"

text \<open>
  Modelled from the spec: \<open>update_node_state(node_state)\<close> of module \<open>manager\<close>, which
  persists a whole NodeState record. The call is recorded with the record it was
  given.
\<close>

definition update_node_state :: "'a node_state \<Rightarrow> 'a world \<Rightarrow> 'a world" where
  "update_node_state ns w = w\<lparr>storage_calls := storage_calls w @ [Update_node_state ns]\<rparr>"


section \<open>CloudifyContext\<close>

record 'a cloudify_context =
  ctx_context :: "'a payload"
  ctx_capabilities :: "'a context_capabilities"
  ctx_logger :: "string option"
  ctx_node_state :: "'a node_state option"
  ctx_lifecycle_state :: "string option"
  ctx_related :: "'a cloudify_related_node option"

definition STARTED :: string where
  "STARTED = ''started''"

definition STOPPED :: string where
  "STOPPED = ''stopped''"

text \<open>
  \<^verbatim>\<open>CloudifyContext.__init__(self, ctx=None)\<close>. The logger is referred to by its
  name, under which the \<open>logging\<close> module keeps the one logger object.
\<close>

definition CloudifyContext_init :: "'a payload option \<Rightarrow> 'a error + 'a cloudify_context" where
  "CloudifyContext_init ctx_arg =
     (let ctx = (case ctx_arg of None \<Rightarrow> empty_payload | Some c \<Rightarrow> c);
          context_capabilities =
            (case payload_capabilities ctx of Some c \<Rightarrow> c | None \<Rightarrow> []);
          self = \<lparr>ctx_context = ctx,
                  ctx_capabilities = ContextCapabilities_init (Some context_capabilities),
                  ctx_logger = None,
                  ctx_node_state = None,
                  ctx_lifecycle_state = None,
                  ctx_related = None\<rparr>
      in case payload_related ctx of
           Some _ \<Rightarrow>
             (case CloudifyRelatedNode_init ctx of
                Inl e \<Rightarrow> Inl e
              | Inr r \<Rightarrow> Inr (self\<lparr>ctx_related := Some r\<rparr>))
         | None \<Rightarrow> Inr self)"

subsection \<open>Accessors\<close>

definition node_id :: "'a cloudify_context \<Rightarrow> string option" where
  "node_id self = payload_node_id (ctx_context self)"

definition node_name :: "'a cloudify_context \<Rightarrow> string option" where
  "node_name self = payload_node_name (ctx_context self)"

definition properties :: "'a cloudify_context \<Rightarrow> 'a dict option" where
  "properties self = payload_node_properties (ctx_context self)"

definition blueprint_id :: "'a cloudify_context \<Rightarrow> string option" where
  "blueprint_id self = payload_blueprint_id (ctx_context self)"

definition deployment_id :: "'a cloudify_context \<Rightarrow> string option" where
  "deployment_id self = payload_deployment_id (ctx_context self)"

definition execution_id :: "'a cloudify_context \<Rightarrow> string option" where
  "execution_id self = payload_execution_id (ctx_context self)"

definition workflow_id :: "'a cloudify_context \<Rightarrow> string option" where
  "workflow_id self = payload_workflow_id (ctx_context self)"

definition task_id :: "'a cloudify_context \<Rightarrow> string option" where
  "task_id self = payload_task_id (ctx_context self)"

definition task_name :: "'a cloudify_context \<Rightarrow> string option" where
  "task_name self = payload_task_name (ctx_context self)"

definition task_target :: "'a cloudify_context \<Rightarrow> string option" where
  "task_target self = payload_task_target (ctx_context self)"

definition plugin :: "'a cloudify_context \<Rightarrow> string option" where
  "plugin self = payload_plugin (ctx_context self)"

definition operation :: "'a cloudify_context \<Rightarrow> string option" where
  "operation self = payload_operation (ctx_context self)"

definition capabilities :: "'a cloudify_context \<Rightarrow> 'a context_capabilities" where
  "capabilities self = ctx_capabilities self"

definition related :: "'a cloudify_context \<Rightarrow> 'a cloudify_related_node option" where
  "related self = ctx_related self"

subsection \<open>The lifecycle flag\<close>

definition is_set_started :: "'a cloudify_context \<Rightarrow> bool" where
  "is_set_started self = (ctx_lifecycle_state self = Some STARTED)"

definition is_set_stopped :: "'a cloudify_context \<Rightarrow> bool" where
  "is_set_stopped self = (ctx_lifecycle_state self = Some STOPPED)"

definition verify_node_in_context :: "'a cloudify_context \<Rightarrow> 'a error + unit" where
  "verify_node_in_context self =
     (case node_id self of
        None \<Rightarrow> Inl (NoNodeInContext ''Invocation requires a node in context'')
      | Some _ \<Rightarrow> Inr ())"

definition set_started :: "'a cloudify_context \<Rightarrow> ('a error + unit) \<times> 'a cloudify_context" where
  "set_started self =
     (case verify_node_in_context self of
        Inl e \<Rightarrow> (Inl e, self)
      | Inr _ \<Rightarrow> (Inr (), self\<lparr>ctx_lifecycle_state := Some STARTED\<rparr>))"

definition set_stopped :: "'a cloudify_context \<Rightarrow> ('a error + unit) \<times> 'a cloudify_context" where
  "set_stopped self =
     (case verify_node_in_context self of
        Inl e \<Rightarrow> (Inl e, self)
      | Inr _ \<Rightarrow> (Inr (), self\<lparr>ctx_lifecycle_state := Some STOPPED\<rparr>))"

subsection \<open>Runtime properties\<close>

text \<open>
  Every method below returns its result (or the exception it raises) together with
  the context and the world as it leaves them.
\<close>

definition get_node_state_if_needed ::
  "'a storage \<Rightarrow> 'a cloudify_context \<Rightarrow> 'a world
     \<Rightarrow> ('a error + unit) \<times> 'a cloudify_context \<times> 'a world" where
  "get_node_state_if_needed storage self w =
     (case node_id self of
        None \<Rightarrow>
          (Inl (NoNodeInContext
                  ''Cannot get node state - invocation is not in a context of node''),
           self, w)
      | Some n \<Rightarrow>
          (case ctx_node_state self of
             None \<Rightarrow>
               (let (ns, w') = get_node_state storage n w
                in (Inr (), self\<lparr>ctx_node_state := Some ns\<rparr>, w'))
           | Some _ \<Rightarrow> (Inr (), self, w)))"

definition runtime_properties ::
  "'a storage \<Rightarrow> 'a cloudify_context \<Rightarrow> 'a world
     \<Rightarrow> ('a error + 'a dict) \<times> 'a cloudify_context \<times> 'a world" where
  "runtime_properties storage self w =
     (case get_node_state_if_needed storage self w of
        (Inl e, self', w') \<Rightarrow> (Inl e, self', w')
      | (Inr _, self', w') \<Rightarrow>
          (case ctx_node_state self' of
             None \<Rightarrow> (Inl (AttributeError ''runtime_properties''), self', w')
           | Some ns \<Rightarrow> (Inr (ns_runtime_properties ns), self', w')))"

text \<open>\<^verbatim>\<open>CloudifyContext.__getitem__\<close>\<close>

definition getitem ::
  "'a storage \<Rightarrow> 'a cloudify_context \<Rightarrow> string \<Rightarrow> 'a world
     \<Rightarrow> ('a error + 'a pyval) \<times> 'a cloudify_context \<times> 'a world" where
  "getitem storage self key w =
     (let from_node_state =
            (case get_node_state_if_needed storage self w of
               (Inl e, self', w') \<Rightarrow> (Inl e, self', w')
             | (Inr _, self', w') \<Rightarrow>
                 (case ctx_node_state self' of
                    None \<Rightarrow> (Inl (TypeError ''__getitem__''), self', w')
                  | Some ns \<Rightarrow> (node_state_getitem ns key, self', w')))
      in case properties self of
           None \<Rightarrow> from_node_state
         | Some props \<Rightarrow>
             (if dict_contains props key then (dict_getitem props key, self, w)
              else from_node_state))"

text \<open>\<^verbatim>\<open>CloudifyContext.__setitem__\<close>\<close>

definition setitem ::
  "'a storage \<Rightarrow> 'a cloudify_context \<Rightarrow> string \<Rightarrow> 'a pyval \<Rightarrow> 'a world
     \<Rightarrow> ('a error + unit) \<times> 'a cloudify_context \<times> 'a world" where
  "setitem storage self key val w =
     (case get_node_state_if_needed storage self w of
        (Inl e, self', w') \<Rightarrow> (Inl e, self', w')
      | (Inr _, self', w') \<Rightarrow>
          (case ctx_node_state self' of
             None \<Rightarrow> (Inl (TypeError ''__setitem__''), self', w')
           | Some ns \<Rightarrow>
               (Inr (), self'\<lparr>ctx_node_state := Some (node_state_setitem ns key val)\<rparr>, w')))"

text \<open>\<^verbatim>\<open>CloudifyContext.__contains__\<close>\<close>

definition contains ::
  "'a storage \<Rightarrow> 'a cloudify_context \<Rightarrow> string \<Rightarrow> 'a world
     \<Rightarrow> ('a error + bool) \<times> 'a cloudify_context \<times> 'a world" where
  "contains storage self key w =
     (let in_node_state =
            (case get_node_state_if_needed storage self w of
               (Inl e, self', w') \<Rightarrow> (Inl e, self', w')
             | (Inr _, self', w') \<Rightarrow>
                 (case ctx_node_state self' of
                    None \<Rightarrow> (Inl (TypeError ''__contains__''), self', w')
                  | Some ns \<Rightarrow> (Inr (node_state_contains ns key), self', w')))
      in case properties self of
           None \<Rightarrow> in_node_state
         | Some props \<Rightarrow>
             (if dict_contains props key then (Inr True, self, w)
              else in_node_state))"

definition update :: "'a cloudify_context \<Rightarrow> 'a world \<Rightarrow> 'a cloudify_context \<times> 'a world" where
  "update self w =
     (case ctx_node_state self of
        Some ns \<Rightarrow> (self\<lparr>ctx_node_state := None\<rparr>, update_node_state ns w)
      | None \<Rightarrow> (self, w))"

subsection \<open>The logger\<close>

text \<open>
  The loop \<^verbatim>\<open>for h in self._logger.handlers: self._logger.removeHandler(h)\<close>.
  Python's list iterator keeps an index \<open>i\<close> into the list it iterates: each round
  it stops when \<open>i\<close> has reached the current length of the list, and otherwise yields
  the element at \<open>i\<close> and increments \<open>i\<close>. The body removes from the same list.
\<close>

function remove_handlers_loop :: "nat \<Rightarrow> handler list \<Rightarrow> handler list" where
  "remove_handlers_loop i hs =
     (if i < length hs then remove_handlers_loop (Suc i) (removeHandler hs (hs ! i))
      else hs)"
  by pat_completeness auto
termination
  by (relation "measure (\<lambda>(i, hs). length hs - i)")
     (auto simp: removeHandler_def length_remove1)

text \<open>
  \<open>_init_cloudify_logger\<close>. \<open>new_handler\<close> is the object that the constructor call
  \<^verbatim>\<open>CloudifyPluginLoggingHandler(self)\<close> returns (module \<open>logs\<close>, not among the
  sources).
\<close>

definition init_cloudify_logger ::
  "handler \<Rightarrow> 'a cloudify_context \<Rightarrow> 'a world \<Rightarrow> 'a cloudify_context \<times> 'a world" where
  "init_cloudify_logger new_handler self w =
     (let logger_name = (case task_name self of Some t \<Rightarrow> t | None \<Rightarrow> ''cloudify_plugin'');
          lg0 = getLogger (loggers w) logger_name;
          lg1 = setLevel lg0 INFO;
          lg2 = lg1\<lparr>handlers := remove_handlers_loop 0 (handlers lg1)\<rparr>;
          h = setFormatter new_handler ''%(message)s'';
          lg3 = lg2\<lparr>propagate := True\<rparr>;
          lg4 = lg3\<lparr>handlers := addHandler (handlers lg3) h\<rparr>
      in (self\<lparr>ctx_logger := Some logger_name\<rparr>,
          w\<lparr>loggers := (loggers w)(logger_name \<mapsto> lg4)\<rparr>))"

definition logger ::
  "handler \<Rightarrow> 'a cloudify_context \<Rightarrow> 'a world
     \<Rightarrow> string option \<times> 'a cloudify_context \<times> 'a world" where
  "logger new_handler self w =
     (case ctx_logger self of
        None \<Rightarrow>
          (let (self', w') = init_cloudify_logger new_handler self w
           in (ctx_logger self', self', w'))
      | Some l \<Rightarrow> (Some l, self, w))"


section \<open>Sequences of operations on a context\<close>

text \<open>
  A task body calls the methods of its context one after the other; a call that
  raises leaves the context as the method left it, and the task may go on. The
  results of the calls are dropped here, the context and the world are threaded
  through.
\<close>

datatype 'a operation =
    Op_set_started
  | Op_set_stopped
  | Op_runtime_properties
  | Op_getitem string
  | Op_setitem string "'a pyval"
  | Op_contains string
  | Op_update
  | Op_logger handler

fun apply_operation ::
  "'a storage \<Rightarrow> 'a operation \<Rightarrow> 'a cloudify_context \<times> 'a world
     \<Rightarrow> 'a cloudify_context \<times> 'a world" where
  "apply_operation storage Op_set_started (self, w) = (snd (set_started self), w)"
| "apply_operation storage Op_set_stopped (self, w) = (snd (set_stopped self), w)"
| "apply_operation storage Op_runtime_properties (self, w) =
     snd (runtime_properties storage self w)"
| "apply_operation storage (Op_getitem key) (self, w) = snd (getitem storage self key w)"
| "apply_operation storage (Op_setitem key val) (self, w) =
     snd (setitem storage self key val w)"
| "apply_operation storage (Op_contains key) (self, w) = snd (contains storage self key w)"
| "apply_operation storage Op_update (self, w) = update self w"
| "apply_operation storage (Op_logger h) (self, w) = snd (logger h self w)"

fun run ::
  "'a storage \<Rightarrow> 'a operation list \<Rightarrow> 'a cloudify_context \<times> 'a world
     \<Rightarrow> 'a cloudify_context \<times> 'a world" where
  "run storage [] s = s"
| "run storage (op # ops) s = run storage ops (apply_operation storage op s)"


section \<open>Scenarios\<close>

text \<open>
  Concrete payloads, contexts and worlds on which the results below are exercised:
  a node \<open>db1\<close> with the declared property \<open>port\<close> and nothing stored, a payload
  without node identifier, a payload with a related node \<open>vm1\<close>, and a task whose
  logger name already has two handlers.
\<close>

abbreviation storage_empty :: "int storage" where
  "storage_empty \<equiv> \<lambda>calls n. \<lparr>ns_id = n, ns_runtime_properties = Map.empty\<rparr>"

abbreviation world_empty :: "int world" where
  "world_empty \<equiv> \<lparr>storage_calls = [], loggers = Map.empty\<rparr>"

abbreviation payload_db1 :: "int payload" where
  "payload_db1 \<equiv>
     empty_payload\<lparr>payload_node_id := Some ''db1'',
                    payload_node_properties := Some [''port'' \<mapsto> PyVal 5432]\<rparr>"

abbreviation ctx_db1 :: "int cloudify_context" where
  "ctx_db1 \<equiv>
     \<lparr>ctx_context = payload_db1, ctx_capabilities = ContextCapabilities [],
      ctx_logger = None, ctx_node_state = None, ctx_lifecycle_state = None,
      ctx_related = None\<rparr>"

abbreviation ctx_no_node :: "int cloudify_context" where
  "ctx_no_node \<equiv>
     \<lparr>ctx_context = empty_payload, ctx_capabilities = ContextCapabilities [],
      ctx_logger = None, ctx_node_state = None, ctx_lifecycle_state = None,
      ctx_related = None\<rparr>"

abbreviation node_state_db1 :: "int node_state" where
  "node_state_db1 \<equiv> \<lparr>ns_id = ''db1'', ns_runtime_properties = [''host'' \<mapsto> PyVal 7]\<rparr>"

abbreviation related_vm1 :: "int related_payload" where
  "related_vm1 \<equiv> \<lparr>rel_node_id = ''vm1'', rel_node_properties = [''image'' \<mapsto> PyVal 1]\<rparr>"

abbreviation payload_related_vm1 :: "int payload" where
  "payload_related_vm1 \<equiv>
     empty_payload\<lparr>payload_node_id := Some ''db1'',
                    payload_capabilities := Some [(''vm1'', [''ip'' \<mapsto> PyVal 10])],
                    payload_related := Some related_vm1\<rparr>"

abbreviation ctx_task :: "int cloudify_context" where
  "ctx_task \<equiv>
     \<lparr>ctx_context = empty_payload\<lparr>payload_task_name := Some ''t''\<rparr>,
      ctx_capabilities = ContextCapabilities [],
      ctx_logger = None, ctx_node_state = None, ctx_lifecycle_state = None,
      ctx_related = None\<rparr>"

abbreviation world_two_handlers :: "int world" where
  "world_two_handlers \<equiv>
     \<lparr>storage_calls = [],
      loggers = [''t'' \<mapsto> \<lparr>level = NOTSET,
                            handlers = [\<lparr>handler_id = 1, formatter = None\<rparr>,
                                        \<lparr>handler_id = 2, formatter = None\<rparr>],
                            propagate = True\<rparr>]\<rparr>"


section \<open>Capability lookup\<close>

text \<open>
  What the loop of \<open>_find_item\<close> returns, by the number of maps that hold the key:
  once a match has been seen, a second one raises.
\<close>

lemma find_item_loop_found:
  "find_item_loop key all ds True v =
     (if occurrences key ds = 0 then Inr (True, v) else Inl (CapabilityAmbiguous key all))"
  by (induction ds) (auto simp: occurrences_def dict_contains_def split: option.splits)

lemma find_item_loop_zero:
  "occurrences key ds = 0 \<Longrightarrow> find_item_loop key all ds found v = Inr (found, v)"
  by (induction ds) (auto simp: occurrences_def dict_contains_def split: option.splits if_splits)

lemma find_item_loop_many:
  "2 \<le> occurrences key ds \<Longrightarrow> find_item_loop key all ds found v = Inl (CapabilityAmbiguous key all)"
  by (induction ds arbitrary: found v) (auto simp: find_item_loop_found occurrences_def dict_contains_def split: option.splits if_splits)

lemma find_item_loop_one:
  "occurrences key ds = 1 \<Longrightarrow> d \<in> set ds \<Longrightarrow> d key = Some x \<Longrightarrow>
   find_item_loop key all ds False v = Inr (True, x)"
proof (induction ds arbitrary: v)
  case Nil then show ?case by simp
next
  case (Cons c cs)
  show ?case
  proof (cases "c key")
    case None
    with Cons.prems have "occurrences key cs = 1" "d \<in> set cs"
      by (auto simp: occurrences_def dict_contains_def)
    with Cons.IH Cons.prems(3) None show ?thesis by simp
  next
    case (Some y)
    with Cons.prems(1) have z: "occurrences key cs = 0"
      by (simp add: occurrences_def dict_contains_def)
    have "d = c"
    proof (rule ccontr)
      assume "d \<noteq> c"
      with Cons.prems(2) have "d \<in> set cs" by simp
      with Cons.prems(3) have "filter (\<lambda>caps. dict_contains caps key) cs \<noteq> []"
        by (auto simp: filter_empty_conv dict_contains_def intro!: bexI[of _ d])
      with z show False by (simp add: occurrences_def)
    qed
    with Some Cons.prems(3) have "y = x" by simp
    with Some z show ?thesis by (simp add: find_item_loop_found)
  qed
qed


text \<open>
  Claim C1, as the code has it: for every capabilities mapping and every key that
  appears in two or more dependency runtime-properties maps, capability get fails with
  \<open>CapabilityAmbiguous\<close>, whose detail holds the key and the whole capabilities
  structure, and capability contains fails with the same error: \<open>__contains__\<close> calls
  \<open>_find_item\<close>, which raises inside its loop.
\<close>

theorem capability_ambiguous_get_and_contains_fail:
  "2 \<le> occurrences key (map snd (get_all self)) \<Longrightarrow>
     capabilities_getitem self key = Inl (CapabilityAmbiguous key (get_all self)) \<and>
     capabilities_contains self key = Inl (CapabilityAmbiguous key (get_all self))"
  by (simp add: capabilities_getitem_def capabilities_contains_def find_item_def
        find_item_loop_many)

theorem capability_ambiguous_get_and_contains_fail_witness:
  "2 \<le> occurrences ''x''
          (map snd (get_all (ContextCapabilities
             [(''a'', [''x'' \<mapsto> PyVal (1::int)]), (''b'', [''x'' \<mapsto> PyVal 2])]))) \<and>
   capabilities_getitem
     (ContextCapabilities [(''a'', [''x'' \<mapsto> PyVal (1::int)]), (''b'', [''x'' \<mapsto> PyVal 2])]) ''x''
     = Inl (CapabilityAmbiguous ''x''
         [(''a'', [''x'' \<mapsto> PyVal 1]), (''b'', [''x'' \<mapsto> PyVal 2])]) \<and>
   capabilities_contains
     (ContextCapabilities [(''a'', [''x'' \<mapsto> PyVal (1::int)]), (''b'', [''x'' \<mapsto> PyVal 2])]) ''x''
     = Inl (CapabilityAmbiguous ''x''
         [(''a'', [''x'' \<mapsto> PyVal 1]), (''b'', [''x'' \<mapsto> PyVal 2])])"
proof -
  have h: "2 \<le> occurrences ''x''
          (map snd (get_all (ContextCapabilities
             [(''a'', [''x'' \<mapsto> PyVal (1::int)]), (''b'', [''x'' \<mapsto> PyVal 2])])))"
    by (simp add: occurrences_def dict_contains_def)
  show ?thesis
    using h capability_ambiguous_get_and_contains_fail [OF h] by simp
qed

text \<open>
  Claim C1 as stated says that contains returns true on an ambiguous key. On
  \<^verbatim>\<open>{"a": {"x": 1}, "b": {"x": 2}}\<close> and the key \<open>x\<close> it does not.
\<close>

theorem capability_contains_ambiguous_counterexample:
  "2 \<le> occurrences ''x''
          (map snd (get_all (ContextCapabilities
             [(''a'', [''x'' \<mapsto> PyVal (1::int)]), (''b'', [''x'' \<mapsto> PyVal 2])]))) \<and>
   capabilities_contains
     (ContextCapabilities [(''a'', [''x'' \<mapsto> PyVal (1::int)]), (''b'', [''x'' \<mapsto> PyVal 2])]) ''x''
     \<noteq> Inr True"
  by (simp add: occurrences_def dict_contains_def capabilities_contains_def find_item_def)

text \<open>
  Claim C2: for every capabilities mapping and every key, if the key appears in exactly
  one dependency runtime-properties map, capability get returns that map's value for
  the key and contains returns true; if the key appears in no map, get fails with
  \<open>CapabilityNotFound\<close> and contains returns false.
\<close>

theorem capability_unique_or_missing:
  "(occurrences key (map snd (get_all self)) = 1 \<longrightarrow>
      (\<exists>d \<in> set (map snd (get_all self)). \<exists>v. d key = Some v) \<and>
      (\<forall>d \<in> set (map snd (get_all self)). \<forall>v. d key = Some v \<longrightarrow>
          capabilities_getitem self key = Inr v) \<and>
      capabilities_contains self key = Inr True) \<and>
   (occurrences key (map snd (get_all self)) = 0 \<longrightarrow>
      capabilities_getitem self key = Inl (CapabilityNotFound key (get_all self)) \<and>
      capabilities_contains self key = Inr False)"
proof (intro conjI impI)
  assume one: "occurrences key (map snd (get_all self)) = 1"
  then have "filter (\<lambda>caps. dict_contains caps key) (map snd (get_all self)) \<noteq> []"
    unfolding occurrences_def by (metis length_0_conv zero_neq_one)
  then obtain d where d: "d \<in> set (map snd (get_all self))" "dict_contains d key"
    unfolding filter_empty_conv by blast
  then obtain v where v: "d key = Some v"
    by (auto simp: dict_contains_def split: option.splits)
  from d(1) v show "\<exists>d \<in> set (map snd (get_all self)). \<exists>v. d key = Some v"
    by blast
  show "\<forall>d \<in> set (map snd (get_all self)). \<forall>v. d key = Some v \<longrightarrow>
          capabilities_getitem self key = Inr v"
    using one by (simp add: capabilities_getitem_def find_item_def find_item_loop_one)
  from one d(1) v show "capabilities_contains self key = Inr True"
    by (simp add: capabilities_contains_def find_item_def find_item_loop_one)
next
  assume "occurrences key (map snd (get_all self)) = 0"
  then show "capabilities_getitem self key = Inl (CapabilityNotFound key (get_all self))"
    and "capabilities_contains self key = Inr False"
    by (simp_all add: capabilities_getitem_def capabilities_contains_def find_item_def
          find_item_loop_zero)
qed

theorem capability_unique_or_missing_witness:
  "occurrences ''x''
     (map snd (get_all (ContextCapabilities
        [(''a'', [''x'' \<mapsto> PyVal (1::int)]), (''b'', [''y'' \<mapsto> PyVal 2])]))) = 1 \<and>
   capabilities_getitem
     (ContextCapabilities [(''a'', [''x'' \<mapsto> PyVal (1::int)]), (''b'', [''y'' \<mapsto> PyVal 2])]) ''x''
     = Inr (PyVal 1) \<and>
   capabilities_contains
     (ContextCapabilities [(''a'', [''x'' \<mapsto> PyVal (1::int)]), (''b'', [''y'' \<mapsto> PyVal 2])]) ''x''
     = Inr True \<and>
   occurrences ''z''
     (map snd (get_all (ContextCapabilities
        [(''a'', [''x'' \<mapsto> PyVal (1::int)]), (''b'', [''y'' \<mapsto> PyVal 2])]))) = 0 \<and>
   capabilities_getitem
     (ContextCapabilities [(''a'', [''x'' \<mapsto> PyVal (1::int)]), (''b'', [''y'' \<mapsto> PyVal 2])]) ''z''
     = Inl (CapabilityNotFound ''z''
         [(''a'', [''x'' \<mapsto> PyVal 1]), (''b'', [''y'' \<mapsto> PyVal 2])]) \<and>
   capabilities_contains
     (ContextCapabilities [(''a'', [''x'' \<mapsto> PyVal (1::int)]), (''b'', [''y'' \<mapsto> PyVal 2])]) ''z''
     = Inr False"
proof -
  let ?c = "ContextCapabilities
        [(''a'', [''x'' \<mapsto> PyVal (1::int)]), (''b'', [''y'' \<mapsto> PyVal 2])]"
  have one: "occurrences ''x'' (map snd (get_all ?c)) = 1"
    by (simp add: occurrences_def dict_contains_def)
  have zero: "occurrences ''z'' (map snd (get_all ?c)) = 0"
    by (simp add: occurrences_def dict_contains_def)
  show ?thesis
    using one zero capability_unique_or_missing [of "''x''" ?c]
      capability_unique_or_missing [of "''z''" ?c]
    by simp
qed


section \<open>Fetching the node state\<close>

text \<open>
  \<open>_get_node_state_if_needed\<close> by cases: no node in context, a NodeState already
  cached, nothing cached yet.
\<close>

lemma get_node_state_if_needed_no_node:
  "node_id self = None \<Longrightarrow>
   get_node_state_if_needed storage self w =
     (Inl (NoNodeInContext ''Cannot get node state - invocation is not in a context of node''),
      self, w)"
  by (simp add: get_node_state_if_needed_def)

lemma get_node_state_if_needed_cached:
  "node_id self = Some n \<Longrightarrow> ctx_node_state self = Some ns \<Longrightarrow>
   get_node_state_if_needed storage self w = (Inr (), self, w)"
  by (simp add: get_node_state_if_needed_def)

lemma get_node_state_if_needed_fetch:
  "node_id self = Some n \<Longrightarrow> ctx_node_state self = None \<Longrightarrow>
   get_node_state_if_needed storage self w =
     (Inr (), self\<lparr>ctx_node_state := Some (storage (storage_calls w) n)\<rparr>,
      w\<lparr>storage_calls := storage_calls w @ [Get_node_state n]\<rparr>)"
  by (simp add: get_node_state_if_needed_def get_node_state_def)

lemma get_node_state_if_needed_node:
  "node_id self = Some n \<Longrightarrow>
   get_node_state_if_needed storage self w =
     (Inr (),
      self\<lparr>ctx_node_state :=
             Some (case ctx_node_state self of
                     Some ns \<Rightarrow> ns
                   | None \<Rightarrow> storage (storage_calls w) n)\<rparr>,
      (case ctx_node_state self of
         Some _ \<Rightarrow> w
       | None \<Rightarrow> w\<lparr>storage_calls := storage_calls w @ [Get_node_state n]\<rparr>))"
  by (cases "ctx_node_state self")
     (simp_all add: get_node_state_if_needed_fetch get_node_state_if_needed_cached)

lemma runtime_properties_node:
  "node_id self = Some n \<Longrightarrow>
   runtime_properties storage self w =
     (Inr (ns_runtime_properties
             (case ctx_node_state self of
                Some c \<Rightarrow> c
              | None \<Rightarrow> storage (storage_calls w) n)),
      self\<lparr>ctx_node_state :=
             Some (case ctx_node_state self of
                     Some c \<Rightarrow> c
                   | None \<Rightarrow> storage (storage_calls w) n)\<rparr>,
      (case ctx_node_state self of
         Some _ \<Rightarrow> w
       | None \<Rightarrow> w\<lparr>storage_calls := storage_calls w @ [Get_node_state n]\<rparr>))"
  by (simp add: runtime_properties_def get_node_state_if_needed_node)

lemma runtime_properties_no_node:
  "node_id self = None \<Longrightarrow>
   runtime_properties storage self w =
     (Inl (NoNodeInContext ''Cannot get node state - invocation is not in a context of node''),
      self, w)"
  by (simp add: runtime_properties_def get_node_state_if_needed_no_node)

lemma setitem_node:
  "node_id self = Some n \<Longrightarrow>
   setitem storage self key val w =
     (Inr (),
      self\<lparr>ctx_node_state :=
             Some (node_state_setitem
                     (case ctx_node_state self of
                        Some c \<Rightarrow> c
                      | None \<Rightarrow> storage (storage_calls w) n) key val)\<rparr>,
      (case ctx_node_state self of
         Some _ \<Rightarrow> w
       | None \<Rightarrow> w\<lparr>storage_calls := storage_calls w @ [Get_node_state n]\<rparr>))"
  by (simp add: setitem_def get_node_state_if_needed_node)

lemma setitem_no_node:
  "node_id self = None \<Longrightarrow>
   setitem storage self key val w =
     (Inl (NoNodeInContext ''Cannot get node state - invocation is not in a context of node''),
      self, w)"
  by (simp add: setitem_def get_node_state_if_needed_no_node)


section \<open>Combined property lookup\<close>

lemma getitem_declared:
  "properties self = Some props \<Longrightarrow> props key = Some v \<Longrightarrow>
   getitem storage self key w = (Inr v, self, w)"
  by (simp add: getitem_def dict_contains_def dict_getitem_def)

lemma contains_declared:
  "properties self = Some props \<Longrightarrow> props key = Some v \<Longrightarrow>
   contains storage self key w = (Inr True, self, w)"
  by (simp add: contains_def dict_contains_def)

lemma getitem_miss_no_node:
  "\<forall>props. properties self = Some props \<longrightarrow> props key = None \<Longrightarrow> node_id self = None \<Longrightarrow>
   getitem storage self key w =
     (Inl (NoNodeInContext ''Cannot get node state - invocation is not in a context of node''),
      self, w)"
  by (cases "properties self")
     (simp_all add: getitem_def dict_contains_def get_node_state_if_needed_no_node)

lemma contains_miss_no_node:
  "\<forall>props. properties self = Some props \<longrightarrow> props key = None \<Longrightarrow> node_id self = None \<Longrightarrow>
   contains storage self key w =
     (Inl (NoNodeInContext ''Cannot get node state - invocation is not in a context of node''),
      self, w)"
  by (cases "properties self")
     (simp_all add: contains_def dict_contains_def get_node_state_if_needed_no_node)

lemma getitem_miss_node:
  "\<forall>props. properties self = Some props \<longrightarrow> props key = None \<Longrightarrow> node_id self = Some n \<Longrightarrow>
   getitem storage self key w =
     ((case ns_runtime_properties
              (case ctx_node_state self of
                 Some c \<Rightarrow> c
               | None \<Rightarrow> storage (storage_calls w) n) key of
         Some v \<Rightarrow> Inr v
       | None \<Rightarrow> Inl (KeyNotFound key)),
      self\<lparr>ctx_node_state :=
             Some (case ctx_node_state self of
                     Some c \<Rightarrow> c
                   | None \<Rightarrow> storage (storage_calls w) n)\<rparr>,
      (case ctx_node_state self of
         Some _ \<Rightarrow> w
       | None \<Rightarrow> w\<lparr>storage_calls := storage_calls w @ [Get_node_state n]\<rparr>))"
  by (cases "properties self")
     (simp_all add: getitem_def dict_contains_def get_node_state_if_needed_node
        node_state_getitem_def dict_getitem_def)

lemma contains_miss_node:
  "\<forall>props. properties self = Some props \<longrightarrow> props key = None \<Longrightarrow> node_id self = Some n \<Longrightarrow>
   contains storage self key w =
     (Inr (ns_runtime_properties
              (case ctx_node_state self of
                 Some c \<Rightarrow> c
               | None \<Rightarrow> storage (storage_calls w) n) key \<noteq> None),
      self\<lparr>ctx_node_state :=
             Some (case ctx_node_state self of
                     Some c \<Rightarrow> c
                   | None \<Rightarrow> storage (storage_calls w) n)\<rparr>,
      (case ctx_node_state self of
         Some _ \<Rightarrow> w
       | None \<Rightarrow> w\<lparr>storage_calls := storage_calls w @ [Get_node_state n]\<rparr>))"
  by (cases "properties self")
     (auto simp add: contains_def dict_contains_def get_node_state_if_needed_node
        node_state_contains_def split: option.splits)

text \<open>
  Claim C3: for every context and every key, the combined \<open>[]\<close>-style lookup returns
  the declared-property value whenever the key is present in the declared properties,
  without any storage call and leaving context and world as they were. If the key is
  absent there, the lookup performs fetch-if-needed (which fails with
  \<open>NoNodeInContext\<close> when the payload has no node identifier) and resolves the key
  from the cached NodeState, failing with \<open>KeyNotFound\<close> when the key is absent from
  both namespaces. The membership check follows the same precedence and fetches only
  when the declared properties miss.
\<close>

theorem getitem_precedence:
  "(\<forall>props v. properties self = Some props \<and> props key = Some v \<longrightarrow>
       getitem storage self key w = (Inr v, self, w) \<and>
       contains storage self key w = (Inr True, self, w)) \<and>
   ((\<forall>props. properties self = Some props \<longrightarrow> props key = None) \<longrightarrow>
      (node_id self = None \<longrightarrow>
         getitem storage self key w = 
           (Inl (NoNodeInContext
                   ''Cannot get node state - invocation is not in a context of node''),
            self, w) \<and>
         contains storage self key w = 
           (Inl (NoNodeInContext
                   ''Cannot get node state - invocation is not in a context of node''),
            self, w)) \<and>
      (\<forall>n. node_id self = Some n \<longrightarrow>
         (let ns = (case ctx_node_state self of
                      Some c \<Rightarrow> c
                    | None \<Rightarrow> storage (storage_calls w) n);
              w' = (case ctx_node_state self of
                      Some _ \<Rightarrow> w
                    | None \<Rightarrow> w\<lparr>storage_calls := storage_calls w @ [Get_node_state n]\<rparr>)
          in getitem storage self key w =
               ((case ns_runtime_properties ns key of
                   Some v \<Rightarrow> Inr v
                 | None \<Rightarrow> Inl (KeyNotFound key)),
                self\<lparr>ctx_node_state := Some ns\<rparr>, w') \<and>
             contains storage self key w =
               (Inr (ns_runtime_properties ns key \<noteq> None),
                self\<lparr>ctx_node_state := Some ns\<rparr>, w'))))"
proof (intro conjI allI impI)
  fix props v
  assume "properties self = Some props \<and> props key = Some v"
  then show "getitem storage self key w = (Inr v, self, w)"
    and "contains storage self key w = (Inr True, self, w)"
    by (simp_all add: getitem_declared contains_declared)
next
  assume "\<forall>props. properties self = Some props \<longrightarrow> props key = None"
    and "node_id self = None"
  then show "getitem storage self key w =
           (Inl (NoNodeInContext
                   ''Cannot get node state - invocation is not in a context of node''),
            self, w)"
    and "contains storage self key w =
           (Inl (NoNodeInContext
                   ''Cannot get node state - invocation is not in a context of node''),
            self, w)"
    by (simp_all add: getitem_miss_no_node contains_miss_no_node)
next
  fix n
  assume "\<forall>props. properties self = Some props \<longrightarrow> props key = None"
    and "node_id self = Some n"
  then show "let ns = (case ctx_node_state self of
                      Some c \<Rightarrow> c
                    | None \<Rightarrow> storage (storage_calls w) n);
              w' = (case ctx_node_state self of
                      Some _ \<Rightarrow> w
                    | None \<Rightarrow> w\<lparr>storage_calls := storage_calls w @ [Get_node_state n]\<rparr>)
          in getitem storage self key w =
               ((case ns_runtime_properties ns key of
                   Some v \<Rightarrow> Inr v
                 | None \<Rightarrow> Inl (KeyNotFound key)),
                self\<lparr>ctx_node_state := Some ns\<rparr>, w') \<and>
             contains storage self key w =
               (Inr (ns_runtime_properties ns key \<noteq> None),
                self\<lparr>ctx_node_state := Some ns\<rparr>, w')"
    unfolding Let_def by (simp only: getitem_miss_node contains_miss_node simp_thms)
qed

theorem getitem_precedence_witness:
  "getitem storage_empty ctx_db1 ''port'' world_empty =
     (Inr (PyVal 5432), ctx_db1, world_empty) \<and>
   contains storage_empty ctx_db1 ''port'' world_empty = (Inr True, ctx_db1, world_empty) \<and>
   getitem storage_empty ctx_db1 ''host'' world_empty =
     (Inl (KeyNotFound ''host''),
      ctx_db1\<lparr>ctx_node_state := Some \<lparr>ns_id = ''db1'', ns_runtime_properties = Map.empty\<rparr>\<rparr>,
      world_empty\<lparr>storage_calls := [Get_node_state ''db1'']\<rparr>) \<and>
   contains storage_empty ctx_db1 ''host'' world_empty =
     (Inr False,
      ctx_db1\<lparr>ctx_node_state := Some \<lparr>ns_id = ''db1'', ns_runtime_properties = Map.empty\<rparr>\<rparr>,
      world_empty\<lparr>storage_calls := [Get_node_state ''db1'']\<rparr>) \<and>
   getitem storage_empty ctx_no_node ''host'' world_empty =
     (Inl (NoNodeInContext ''Cannot get node state - invocation is not in a context of node''),
      ctx_no_node, world_empty)"
  using getitem_precedence [where self = ctx_db1 and key = "''port''"
          and storage = storage_empty and w = world_empty]
        getitem_precedence [where self = ctx_db1 and key = "''host''"
          and storage = storage_empty and w = world_empty]
        getitem_precedence [where self = ctx_no_node and key = "''host''"
          and storage = storage_empty and w = world_empty]
  by (simp add: properties_def node_id_def empty_payload_def Let_def)


section \<open>Load cycles\<close>

lemma run_append: "run storage (xs @ ys) s = run storage ys (run storage xs s)"
  by (induction xs arbitrary: s) simp_all

lemma node_state_update_same:
  "ctx_node_state self = Some ns \<Longrightarrow> self\<lparr>ctx_node_state := Some ns\<rparr> = self"
  by (cases self) simp

lemma run_accesses_loaded:
  "node_id self = Some n \<Longrightarrow> ctx_node_state self = Some ns \<Longrightarrow>
   run storage (replicate k Op_runtime_properties) (self, w) = (self, w)"
  by (induction k) (simp_all add: runtime_properties_node node_state_update_same)

lemma run_accesses_fresh:
  assumes "node_id self = Some n" and "ctx_node_state self = None" and "0 < k"
  shows "run storage (replicate k Op_runtime_properties) (self, w) =
           (self\<lparr>ctx_node_state := Some (storage (storage_calls w) n)\<rparr>,
            w\<lparr>storage_calls := storage_calls w @ [Get_node_state n]\<rparr>)"
proof -
  from \<open>0 < k\<close> obtain j where k: "k = Suc j"
    by (cases k) simp_all
  let ?self = "self\<lparr>ctx_node_state := Some (storage (storage_calls w) n)\<rparr>"
  have "node_id ?self = Some n" and "ctx_node_state ?self = Some (storage (storage_calls w) n)"
    using assms(1) by (simp_all add: node_id_def)
  then have "run storage (replicate j Op_runtime_properties)
               (?self, w\<lparr>storage_calls := storage_calls w @ [Get_node_state n]\<rparr>) =
             (?self, w\<lparr>storage_calls := storage_calls w @ [Get_node_state n]\<rparr>)"
    by (rule run_accesses_loaded)
  with assms(1,2) show ?thesis
    by (simp add: k runtime_properties_node)
qed

text \<open>
  Claim C4: for every context with a node identifier, any number \<open>k > 0\<close> of
  \<open>runtime_properties\<close> accesses that start with nothing cached make exactly one
  \<open>get_node_state\<close> call; with a NodeState cached, an access returns its mapping and
  any number of accesses make no call and change nothing; and after a flush via
  \<open>update\<close>, any number \<open>m > 0\<close> of accesses make exactly one new \<open>get_node_state\<close>
  call.
\<close>

theorem one_fetch_per_load_cycle:
  assumes "node_id self = Some n"
  shows "(ctx_node_state self = None \<and> 0 < k \<longrightarrow>
            run storage (replicate k Op_runtime_properties) (self, w) =
              (self\<lparr>ctx_node_state := Some (storage (storage_calls w) n)\<rparr>,
               w\<lparr>storage_calls := storage_calls w @ [Get_node_state n]\<rparr>)) \<and>
         (\<forall>ns. ctx_node_state self = Some ns \<longrightarrow>
            runtime_properties storage self w = (Inr (ns_runtime_properties ns), self, w) \<and>
            run storage (replicate k Op_runtime_properties) (self, w) = (self, w)) \<and>
         (\<forall>ns. ctx_node_state self = Some ns \<and> 0 < m \<longrightarrow>
            run storage
              (replicate k Op_runtime_properties @ Op_update #
                 replicate m Op_runtime_properties)
              (self, w) =
              (self\<lparr>ctx_node_state :=
                      Some (storage (storage_calls w @ [Update_node_state ns]) n)\<rparr>,
               w\<lparr>storage_calls :=
                    storage_calls w @ [Update_node_state ns, Get_node_state n]\<rparr>))"
proof (intro conjI allI impI)
  assume "ctx_node_state self = None \<and> 0 < k"
  with assms
  show "run storage (replicate k Op_runtime_properties) (self, w) =
          (self\<lparr>ctx_node_state := Some (storage (storage_calls w) n)\<rparr>,
           w\<lparr>storage_calls := storage_calls w @ [Get_node_state n]\<rparr>)"
    by (simp add: run_accesses_fresh)
next
  fix ns
  assume "ctx_node_state self = Some ns"
  with assms
  show "runtime_properties storage self w = (Inr (ns_runtime_properties ns), self, w)"
    and "run storage (replicate k Op_runtime_properties) (self, w) = (self, w)"
    by (simp_all add: run_accesses_loaded runtime_properties_node node_state_update_same)
next
  fix ns
  assume a: "ctx_node_state self = Some ns \<and> 0 < m"
  let ?self = "self\<lparr>ctx_node_state := None\<rparr>"
  let ?w = "w\<lparr>storage_calls := storage_calls w @ [Update_node_state ns]\<rparr>"
  have "node_id ?self = Some n" and "ctx_node_state ?self = None"
    using assms by (simp_all add: node_id_def)
  with a have "run storage (replicate m Op_runtime_properties) (?self, ?w) =
      (?self\<lparr>ctx_node_state := Some (storage (storage_calls ?w) n)\<rparr>,
       ?w\<lparr>storage_calls := storage_calls ?w @ [Get_node_state n]\<rparr>)"
    by (intro run_accesses_fresh) simp_all
  with assms a
  show "run storage
          (replicate k Op_runtime_properties @ Op_update #
             replicate m Op_runtime_properties)
          (self, w) =
          (self\<lparr>ctx_node_state :=
                  Some (storage (storage_calls w @ [Update_node_state ns]) n)\<rparr>,
           w\<lparr>storage_calls :=
                storage_calls w @ [Update_node_state ns, Get_node_state n]\<rparr>)"
    by (simp add: run_append run_accesses_loaded update_def update_node_state_def)
qed

theorem one_fetch_per_load_cycle_witness:
  "node_id ctx_db1 = Some ''db1'' \<and>
   run storage_empty (replicate 3 Op_runtime_properties) (ctx_db1, world_empty) =
     (ctx_db1\<lparr>ctx_node_state := Some \<lparr>ns_id = ''db1'', ns_runtime_properties = Map.empty\<rparr>\<rparr>,
      world_empty\<lparr>storage_calls := [Get_node_state ''db1'']\<rparr>) \<and>
   run storage_empty (replicate 3 Op_runtime_properties)
     (ctx_db1\<lparr>ctx_node_state := Some node_state_db1\<rparr>, world_empty) =
     (ctx_db1\<lparr>ctx_node_state := Some node_state_db1\<rparr>, world_empty) \<and>
   run storage_empty
     (replicate 3 Op_runtime_properties @ Op_update # replicate 2 Op_runtime_properties)
     (ctx_db1\<lparr>ctx_node_state := Some node_state_db1\<rparr>, world_empty) =
     (ctx_db1\<lparr>ctx_node_state := Some \<lparr>ns_id = ''db1'', ns_runtime_properties = Map.empty\<rparr>\<rparr>,
      world_empty\<lparr>storage_calls :=
                    [Update_node_state node_state_db1, Get_node_state ''db1'']\<rparr>)"
proof -
  have n: "node_id ctx_db1 = Some ''db1''"
    and n': "node_id (ctx_db1\<lparr>ctx_node_state := Some node_state_db1\<rparr>) = Some ''db1''"
    by (simp_all add: node_id_def)
  show ?thesis
    using n one_fetch_per_load_cycle [OF n, of 3 storage_empty world_empty 2]
      one_fetch_per_load_cycle [OF n', of 3 storage_empty world_empty 2]
    by simp
qed

text \<open>
  Claim C5: for every context, \<open>update\<close> with a NodeState cached calls
  \<open>update_node_state\<close> exactly once, with that NodeState, and discards the cache;
  \<open>update\<close> with nothing cached makes no storage call and leaves context and world
  unchanged.
\<close>

theorem update_flushes_cache:
  "(\<forall>ns. ctx_node_state self = Some ns \<longrightarrow>
      update self w =
        (self\<lparr>ctx_node_state := None\<rparr>,
         w\<lparr>storage_calls := storage_calls w @ [Update_node_state ns]\<rparr>)) \<and>
   (ctx_node_state self = None \<longrightarrow> update self w = (self, w))"
  by (simp add: update_def update_node_state_def)

theorem update_flushes_cache_witness:
  "update (ctx_db1\<lparr>ctx_node_state := Some node_state_db1\<rparr>) world_empty =
     (ctx_db1, world_empty\<lparr>storage_calls := [Update_node_state node_state_db1]\<rparr>) \<and>
   update ctx_db1 world_empty = (ctx_db1, world_empty)"
  using update_flushes_cache [of "ctx_db1\<lparr>ctx_node_state := Some node_state_db1\<rparr>" world_empty]
    update_flushes_cache [of ctx_db1 world_empty]
  by simp


section \<open>Mutation\<close>

text \<open>
  Claim C6: for every context, key and value, the \<open>[]\<close>-style set leaves the declared
  properties unchanged, also when the key exists there, and adds no call to the
  storage other than the \<open>get_node_state\<close> of fetch-if-needed, so nothing is persisted
  at set time. With a node in context the value is recorded in the cached NodeState
  (fetched first when nothing is cached) and nothing else in the context changes;
  without one the set fails with \<open>NoNodeInContext\<close> and changes nothing.
\<close>

theorem setitem_only_node_state:
  "properties (fst (snd (setitem storage self key val w))) = properties self \<and>
   (\<exists>gets. storage_calls (snd (snd (setitem storage self key val w))) =
              storage_calls w @ map Get_node_state gets) \<and>
   (\<forall>n. node_id self = Some n \<longrightarrow>
      (let ns = (case ctx_node_state self of
                   Some c \<Rightarrow> c
                 | None \<Rightarrow> storage (storage_calls w) n);
           w' = (case ctx_node_state self of
                   Some _ \<Rightarrow> w
                 | None \<Rightarrow> w\<lparr>storage_calls := storage_calls w @ [Get_node_state n]\<rparr>)
       in setitem storage self key val w =
            (Inr (),
             self\<lparr>ctx_node_state :=
                    Some (ns\<lparr>ns_runtime_properties := (ns_runtime_properties ns)(key \<mapsto> val)\<rparr>)\<rparr>,
             w'))) \<and>
   (node_id self = None \<longrightarrow>
      setitem storage self key val w =
        (Inl (NoNodeInContext
                ''Cannot get node state - invocation is not in a context of node''),
         self, w))"
proof (cases "node_id self")
  case None
  then show ?thesis by (simp add: setitem_no_node)
next
  case (Some n)
  have "\<exists>gets. storage_calls w @ [Get_node_state n] =
                storage_calls w @ map Get_node_state gets"
    by (rule exI [of _ "[n]"]) simp
  with Some show ?thesis
    by (cases "ctx_node_state self")
       (simp_all add: setitem_node node_state_setitem_def properties_def)
qed

theorem setitem_only_node_state_witness:
  "setitem storage_empty ctx_db1 ''port'' (PyVal 80) world_empty =
     (Inr (),
      ctx_db1\<lparr>ctx_node_state :=
                Some \<lparr>ns_id = ''db1'', ns_runtime_properties = [''port'' \<mapsto> PyVal 80]\<rparr>\<rparr>,
      world_empty\<lparr>storage_calls := [Get_node_state ''db1'']\<rparr>) \<and>
   properties (fst (snd (setitem storage_empty ctx_db1 ''port'' (PyVal 80) world_empty))) =
     Some [''port'' \<mapsto> PyVal 5432] \<and>
   setitem storage_empty ctx_no_node ''port'' (PyVal 80) world_empty =
     (Inl (NoNodeInContext ''Cannot get node state - invocation is not in a context of node''),
      ctx_no_node, world_empty)"
  using setitem_only_node_state [of storage_empty ctx_db1 "''port''" "PyVal 80" world_empty]
    setitem_only_node_state [of storage_empty ctx_no_node "''port''" "PyVal 80" world_empty]
  by (simp add: properties_def node_id_def empty_payload_def Let_def)


section \<open>No node in context\<close>

text \<open>
  Claim C7: for every context whose payload has no node identifier, \<open>set_started\<close>,
  \<open>set_stopped\<close>, fetch-if-needed, the \<open>runtime_properties\<close> access and the indexed
  set fail with \<open>NoNodeInContext\<close>, and the failing call leaves the whole context,
  in particular the lifecycle flag and the node-state cache, and the world unchanged.
\<close>

theorem no_node_in_context_fails:
  assumes "node_id self = None"
  shows "set_started self =
           (Inl (NoNodeInContext ''Invocation requires a node in context''), self) \<and>
         set_stopped self =
           (Inl (NoNodeInContext ''Invocation requires a node in context''), self) \<and>
         get_node_state_if_needed storage self w =
           (Inl (NoNodeInContext
                   ''Cannot get node state - invocation is not in a context of node''),
            self, w) \<and>
         runtime_properties storage self w =
           (Inl (NoNodeInContext
                   ''Cannot get node state - invocation is not in a context of node''),
            self, w) \<and>
         setitem storage self key val w =
           (Inl (NoNodeInContext
                   ''Cannot get node state - invocation is not in a context of node''),
            self, w)"
  using assms
  by (simp add: set_started_def set_stopped_def verify_node_in_context_def
        get_node_state_if_needed_no_node runtime_properties_no_node setitem_no_node)

theorem no_node_in_context_fails_witness:
  "node_id ctx_no_node = None \<and>
   set_started ctx_no_node =
     (Inl (NoNodeInContext ''Invocation requires a node in context''), ctx_no_node) \<and>
   set_stopped ctx_no_node =
     (Inl (NoNodeInContext ''Invocation requires a node in context''), ctx_no_node) \<and>
   runtime_properties storage_empty ctx_no_node world_empty =
     (Inl (NoNodeInContext ''Cannot get node state - invocation is not in a context of node''),
      ctx_no_node, world_empty)"
proof -
  have n: "node_id ctx_no_node = None"
    by (simp add: node_id_def empty_payload_def)
  show ?thesis
    using n no_node_in_context_fails [OF n, of storage_empty world_empty]
    by simp
qed


section \<open>What no operation changes\<close>

lemma apply_operation_frame:
  "ctx_context (fst (apply_operation storage op s)) = ctx_context (fst s) \<and>
   ctx_related (fst (apply_operation storage op s)) = ctx_related (fst s) \<and>
   ctx_capabilities (fst (apply_operation storage op s)) = ctx_capabilities (fst s)"
proof (cases s)
  case (Pair self w)
  show ?thesis
    unfolding Pair
    by (cases op)
       (auto simp: set_started_def set_stopped_def runtime_properties_def getitem_def
          setitem_def contains_def update_def logger_def init_cloudify_logger_def
          get_node_state_if_needed_def get_node_state_def Let_def
          split: option.splits sum.splits prod.splits if_splits)
qed

lemma run_frame:
  "ctx_context (fst (run storage ops s)) = ctx_context (fst s) \<and>
   ctx_related (fst (run storage ops s)) = ctx_related (fst s) \<and>
   ctx_capabilities (fst (run storage ops s)) = ctx_capabilities (fst s)"
  by (induction ops arbitrary: s) (simp_all add: apply_operation_frame)

lemma apply_operation_lifecycle:
  "node_id (fst s) = None \<longrightarrow> ctx_lifecycle_state (fst s) = None \<Longrightarrow>
   node_id (fst (apply_operation storage op s)) = None \<longrightarrow>
     ctx_lifecycle_state (fst (apply_operation storage op s)) = None"
proof (cases s)
  case (Pair self w)
  assume "node_id (fst s) = None \<longrightarrow> ctx_lifecycle_state (fst s) = None"
  then show ?thesis
    unfolding Pair
    by (cases op)
       (auto simp: set_started_def set_stopped_def runtime_properties_def getitem_def
          setitem_def contains_def update_def logger_def init_cloudify_logger_def
          get_node_state_if_needed_def get_node_state_def Let_def node_id_def
          verify_node_in_context_def
          split: option.splits sum.splits prod.splits if_splits)
qed

lemma run_lifecycle:
  "node_id (fst s) = None \<longrightarrow> ctx_lifecycle_state (fst s) = None \<Longrightarrow>
   node_id (fst (run storage ops s)) = None \<longrightarrow>
     ctx_lifecycle_state (fst (run storage ops s)) = None"
proof (induction ops arbitrary: s)
  case Nil
  then show ?case by simp
next
  case (Cons op ops)
  from Cons.prems
  have "node_id (fst (apply_operation storage op s)) = None \<longrightarrow>
          ctx_lifecycle_state (fst (apply_operation storage op s)) = None"
    by (rule apply_operation_lifecycle)
  then show ?case
    using Cons.IH by simp
qed

lemma CloudifyContext_init_fields:
  "CloudifyContext_init p = Inr self \<Longrightarrow>
     ctx_lifecycle_state self = None \<and> ctx_node_state self = None \<and> ctx_logger self = None"
  by (auto simp: CloudifyContext_init_def Let_def split: option.splits sum.splits)


section \<open>The related node\<close>

text \<open>
  Claim C8: for every invocation payload with a related sub-record, the construction
  of the related view succeeds; its runtime properties are \<open>capabilities[node_id]\<close> of
  the related node when the capabilities mapping has that key and the empty mapping
  otherwise; no sequence of operations on the context changes the view; its indexed
  get returns the declared-property value when present, else the runtime-property
  value, and fails with \<open>KeyNotFound\<close> when the key is absent from both; and
  membership holds exactly when the key is in either mapping.
\<close>

theorem related_node_view:
  assumes "payload_related p = Some r"
  shows "\<exists>rn self.
           CloudifyRelatedNode_init p = Inr rn \<and>
           CloudifyContext_init (Some p) = Inr self \<and>
           related self = Some rn \<and>
           (\<forall>storage ops w. related (fst (run storage ops (self, w))) = Some rn) \<and>
           related_node_id rn = rel_node_id r \<and>
           related_properties rn = rel_node_properties r \<and>
           related_runtime_properties rn =
             (case payload_capabilities p of
                None \<Rightarrow> Map.empty
              | Some caps \<Rightarrow>
                  (case map_of caps (rel_node_id r) of
                     None \<Rightarrow> Map.empty
                   | Some d \<Rightarrow> d)) \<and>
           (\<forall>key. related_getitem rn key =
                    (case rel_node_properties r key of
                       Some v \<Rightarrow> Inr v
                     | None \<Rightarrow>
                         (case related_runtime_properties rn key of
                            Some v \<Rightarrow> Inr v
                          | None \<Rightarrow> Inl (KeyNotFound key)))) \<and>
           (\<forall>key. related_contains rn key \<longleftrightarrow>
                    key \<in> dom (rel_node_properties r) \<or>
                    key \<in> dom (related_runtime_properties rn))"
proof -
  let ?d = "case payload_capabilities p of
                None \<Rightarrow> Map.empty
              | Some caps \<Rightarrow>
                  (case map_of caps (rel_node_id r) of
                     None \<Rightarrow> Map.empty
                   | Some d \<Rightarrow> d)"
  let ?rn = "\<lparr>rn_related = r, rn_runtime_properties = ?d\<rparr>"
  have rn: "CloudifyRelatedNode_init p = Inr ?rn"
    using assms by (simp add: CloudifyRelatedNode_init_def split: option.splits)
  then obtain self where self: "CloudifyContext_init (Some p) = Inr self"
    and rel: "ctx_related self = Some ?rn"
    using assms by (simp add: CloudifyContext_init_def Let_def)
  have fixed: "related (fst (run storage ops (self, w))) = Some ?rn" for storage ops w
    using run_frame [of storage ops "(self, w)"] rel by (simp add: related_def)
  have get: "related_getitem ?rn key =
                    (case rel_node_properties r key of
                       Some v \<Rightarrow> Inr v
                     | None \<Rightarrow>
                         (case related_runtime_properties ?rn key of
                            Some v \<Rightarrow> Inr v
                          | None \<Rightarrow> Inl (KeyNotFound key)))" for key
    by (simp add: related_getitem_def related_properties_def related_runtime_properties_def
          dict_contains_def dict_getitem_def split: option.splits)
  have mem: "related_contains ?rn key \<longleftrightarrow>
                    key \<in> dom (rel_node_properties r) \<or>
                    key \<in> dom (related_runtime_properties ?rn)" for key
    by (auto simp: related_contains_def related_properties_def related_runtime_properties_def
          dict_contains_def split: option.splits)
  from rn self rel fixed get mem
  have "CloudifyRelatedNode_init p = Inr ?rn \<and>
        CloudifyContext_init (Some p) = Inr self \<and>
        related self = Some ?rn \<and>
        (\<forall>storage ops w. related (fst (run storage ops (self, w))) = Some ?rn) \<and>
        related_node_id ?rn = rel_node_id r \<and>
        related_properties ?rn = rel_node_properties r \<and>
        related_runtime_properties ?rn = ?d \<and>
        (\<forall>key. related_getitem ?rn key =
                 (case rel_node_properties r key of
                    Some v \<Rightarrow> Inr v
                  | None \<Rightarrow>
                      (case related_runtime_properties ?rn key of
                         Some v \<Rightarrow> Inr v
                       | None \<Rightarrow> Inl (KeyNotFound key)))) \<and>
        (\<forall>key. related_contains ?rn key \<longleftrightarrow>
                 key \<in> dom (rel_node_properties r) \<or>
                 key \<in> dom (related_runtime_properties ?rn))"
    by (simp add: related_def related_node_id_def related_properties_def
          related_runtime_properties_def)
  then show ?thesis
    by (intro exI)
qed

theorem related_node_view_witness:
  "payload_related payload_related_vm1 = Some related_vm1 \<and>
   CloudifyRelatedNode_init payload_related_vm1 =
     Inr \<lparr>rn_related = related_vm1, rn_runtime_properties = [''ip'' \<mapsto> PyVal 10]\<rparr> \<and>
   related_getitem
     \<lparr>rn_related = related_vm1, rn_runtime_properties = [''ip'' \<mapsto> PyVal 10]\<rparr> ''image'' =
     Inr (PyVal 1) \<and>
   related_getitem
     \<lparr>rn_related = related_vm1, rn_runtime_properties = [''ip'' \<mapsto> PyVal 10]\<rparr> ''ip'' =
     Inr (PyVal 10) \<and>
   related_getitem
     \<lparr>rn_related = related_vm1, rn_runtime_properties = [''ip'' \<mapsto> PyVal 10]\<rparr> ''port'' =
     Inl (KeyNotFound ''port'') \<and>
   related_contains
     \<lparr>rn_related = related_vm1, rn_runtime_properties = [''ip'' \<mapsto> PyVal 10]\<rparr> ''ip''"
proof -
  let ?rn = "\<lparr>rn_related = related_vm1, rn_runtime_properties = [''ip'' \<mapsto> PyVal (10::int)]\<rparr>"
  have h: "payload_related payload_related_vm1 = Some related_vm1"
    by simp
  have c: "CloudifyRelatedNode_init payload_related_vm1 = Inr ?rn"
    by (simp add: CloudifyRelatedNode_init_def)
  from related_node_view [OF h] obtain rn where
    rn: "CloudifyRelatedNode_init payload_related_vm1 = Inr rn"
    and rp: "related_runtime_properties rn =
             (case payload_capabilities payload_related_vm1 of
                None \<Rightarrow> Map.empty
              | Some caps \<Rightarrow>
                  (case map_of caps (rel_node_id related_vm1) of
                     None \<Rightarrow> Map.empty
                   | Some d \<Rightarrow> d))"
    and get: "\<forall>key. related_getitem rn key =
                    (case rel_node_properties related_vm1 key of
                       Some v \<Rightarrow> Inr v
                     | None \<Rightarrow>
                         (case related_runtime_properties rn key of
                            Some v \<Rightarrow> Inr v
                          | None \<Rightarrow> Inl (KeyNotFound key)))"
    and mem: "\<forall>key. related_contains rn key \<longleftrightarrow>
                    key \<in> dom (rel_node_properties related_vm1) \<or>
                    key \<in> dom (related_runtime_properties rn)"
    by blast
  from rn c have eq: "rn = ?rn"
    by simp
  from rp have rp': "related_runtime_properties ?rn = [''ip'' \<mapsto> PyVal 10]"
    unfolding eq by simp
  show ?thesis
    using h c get [unfolded eq] mem [unfolded eq] rp'
    by simp
qed


section \<open>The logger\<close>

text \<open>
  The removal loop drops every other handler: removing the element at the iterator's
  index shifts the next one into that index, and the iterator moves on.
\<close>

lemma length_remove_handlers_loop:
  "i \<le> length hs \<Longrightarrow>
   length (remove_handlers_loop i hs) = length hs - (length hs - i + 1) div 2"
proof (induction i hs rule: remove_handlers_loop.induct)
  case (1 i hs)
  show ?case
  proof (cases "i < length hs")
    case True
    then have len: "length (removeHandler hs (hs ! i)) = length hs - 1"
      by (simp add: removeHandler_def length_remove1)
    show ?thesis
    proof (cases "Suc i \<le> length hs - 1")
      case le: True
      with True 1 len
      have "length (remove_handlers_loop (Suc i) (removeHandler hs (hs ! i))) =
              (length hs - 1) - ((length hs - 1) - Suc i + 1) div 2"
        by simp
      with True le show ?thesis
        by (subst remove_handlers_loop.simps) (simp, arith)
    next
      case False
      with True have i: "length hs = Suc i"
        by arith
      with len have "remove_handlers_loop (Suc i) (removeHandler hs (hs ! i)) =
                       removeHandler hs (hs ! i)"
        by (subst remove_handlers_loop.simps) simp
      with True len i show ?thesis
        by (subst remove_handlers_loop.simps) simp
    qed
  next
    case False
    with 1(2) show ?thesis
      by (subst remove_handlers_loop.simps) simp
  qed
qed

lemma remove_handlers_loop_leaves_half:
  "length (remove_handlers_loop 0 hs) = length hs div 2"
  using length_remove_handlers_loop [of 0 hs] by simp

text \<open>
  Claim C9 says that at wiring time every prior handler on the logger name is detached
  before the context-aware handler is attached. On a logger that holds two handlers
  the loop of \<open>_init_cloudify_logger\<close> removes only the first: after the first access
  to \<open>logger\<close> the second prior handler is still attached, before the new one.
\<close>

theorem logger_leaves_prior_handler_attached:
  "logger \<lparr>handler_id = 3, formatter = None\<rparr> ctx_task world_two_handlers =
     (Some ''t'',
      ctx_task\<lparr>ctx_logger := Some ''t''\<rparr>,
      world_two_handlers
        \<lparr>loggers := [''t'' \<mapsto> \<lparr>level = INFO,
                                 handlers = [\<lparr>handler_id = 2, formatter = None\<rparr>,
                                             \<lparr>handler_id = 3, formatter = Some ''%(message)s''\<rparr>],
                                 propagate = True\<rparr>]\<rparr>)"
  by (simp add: logger_def init_cloudify_logger_def task_name_def empty_payload_def
        getLogger_def setLevel_def setFormatter_def addHandler_def removeHandler_def
        remove_handlers_loop.simps Let_def)


section \<open>The lifecycle flag\<close>

text \<open>
  Claim C10: a context starts with the lifecycle flag unset, so that both predicates
  are false; and after every sequence of operations on it, at most one of
  \<open>is_set_started\<close> and \<open>is_set_stopped\<close> is true, \<open>is_set_stopped\<close> is false after
  \<open>set_started\<close>, \<open>is_set_started\<close> is false after \<open>set_stopped\<close>, and with a node in
  context the last setter wins.
\<close>

theorem lifecycle_flag_exclusive:
  assumes "CloudifyContext_init p = Inr self0"
  shows "\<not> is_set_started self0 \<and> \<not> is_set_stopped self0 \<and>
         (\<forall>storage ops w.
            let self = fst (run storage ops (self0, w))
            in \<not> (is_set_started self \<and> is_set_stopped self) \<and>
               \<not> is_set_stopped (snd (set_started self)) \<and>
               \<not> is_set_started (snd (set_stopped self)) \<and>
               (node_id self \<noteq> None \<longrightarrow>
                  is_set_started (snd (set_started self)) \<and>
                  is_set_stopped (snd (set_stopped self))))"
proof -
  have init: "ctx_lifecycle_state self0 = None"
    using assms by (simp add: CloudifyContext_init_fields)
  have ne: "STARTED \<noteq> STOPPED"
    by (simp add: STARTED_def STOPPED_def)
  have "\<not> (is_set_started self \<and> is_set_stopped self) \<and>
        \<not> is_set_stopped (snd (set_started self)) \<and>
        \<not> is_set_started (snd (set_stopped self)) \<and>
        (node_id self \<noteq> None \<longrightarrow>
           is_set_started (snd (set_started self)) \<and>
           is_set_stopped (snd (set_stopped self)))"
    if "self = fst (run storage ops (self0, w))" for self storage ops w
  proof -
    have "node_id (fst (run storage ops (self0, w))) = None \<longrightarrow>
            ctx_lifecycle_state (fst (run storage ops (self0, w))) = None"
      by (rule run_lifecycle) (simp add: init)
    then have inv: "node_id self = None \<longrightarrow> ctx_lifecycle_state self = None"
      using that by simp
    show ?thesis
    proof (cases "node_id self")
      case None
      with inv ne show ?thesis
        by (simp add: is_set_started_def is_set_stopped_def set_started_def set_stopped_def
              verify_node_in_context_def)
    next
      case (Some n)
      with ne show ?thesis
        by (auto simp: is_set_started_def is_set_stopped_def set_started_def set_stopped_def
              verify_node_in_context_def)
    qed
  qed
  with init show ?thesis
    by (simp add: is_set_started_def is_set_stopped_def Let_def)
qed

theorem lifecycle_flag_exclusive_witness:
  "CloudifyContext_init (Some payload_db1) = Inr ctx_db1 \<and>
   \<not> is_set_started ctx_db1 \<and> \<not> is_set_stopped ctx_db1 \<and>
   is_set_started
     (snd (set_started (fst (run storage_empty [Op_set_stopped] (ctx_db1, world_empty))))) \<and>
   \<not> is_set_stopped
     (snd (set_started (fst (run storage_empty [Op_set_stopped] (ctx_db1, world_empty))))) \<and>
   node_id (fst (run storage_empty [Op_set_stopped] (ctx_db1, world_empty))) = Some ''db1''"
proof -
  have init: "CloudifyContext_init (Some payload_db1) = Inr ctx_db1"
    by (simp add: CloudifyContext_init_def ContextCapabilities_init_def empty_payload_def)
  have n: "node_id (fst (run storage_empty [Op_set_stopped] (ctx_db1, world_empty))) = Some ''db1''"
    by (simp add: set_stopped_def verify_node_in_context_def node_id_def empty_payload_def)
  from lifecycle_flag_exclusive [OF init]
  have "\<not> is_set_started ctx_db1" and "\<not> is_set_stopped ctx_db1"
    and "\<forall>storage ops w.
            let self = fst (run storage ops (ctx_db1, w))
            in \<not> (is_set_started self \<and> is_set_stopped self) \<and>
               \<not> is_set_stopped (snd (set_started self)) \<and>
               \<not> is_set_started (snd (set_stopped self)) \<and>
               (node_id self \<noteq> None \<longrightarrow>
                  is_set_started (snd (set_started self)) \<and>
                  is_set_stopped (snd (set_stopped self)))"
    by blast+
  then show ?thesis
    using init n unfolding Let_def by (metis option.distinct(1))
qed

end
